theory Spec2Isabelle
  imports Complex_Main
begin

section \<open>Values of the RBAC service (rbac.js)\<close>

text \<open>
  A string is the list of its code units; the model has the code units U+0000 to U+00FF.
  JSON values are what \<open>express.json()\<close> puts into \<open>req.body\<close> and what \<open>res.json\<close>
  sends: an object is the list of its fields in the order they are written.
\<close>

datatype json =
    JNull
  | JBool bool
  | JNum real
  | JStr string
  | JArr "json list"
  | JObj "(string \<times> json) list"

text \<open>\<open>has_key k v\<close>: some object inside \<open>v\<close>, at any depth, has a field named \<open>k\<close>.\<close>

fun has_key :: "string \<Rightarrow> json \<Rightarrow> bool" where
  "has_key k (JObj fs) = (\<exists>f \<in> set fs. fst f = k \<or> has_key k (snd f))"
| "has_key k (JArr vs) = (\<exists>v \<in> set vs. has_key k v)"
| "has_key k _ = False"

text \<open>A string or \<open>null\<close> as JSON.\<close>

definition jstr :: "string option \<Rightarrow> json" where
  "jstr v = (case v of None \<Rightarrow> JNull | Some x \<Rightarrow> JStr x)"

text \<open>A boolean or \<open>null\<close> as JSON.\<close>

definition jbool :: "bool option \<Rightarrow> json" where
  "jbool v = (case v of None \<Rightarrow> JNull | Some b \<Rightarrow> JBool b)"

text \<open>What JavaScript takes for true in a condition.\<close>

fun truthy :: "json \<Rightarrow> bool" where
  "truthy JNull = False"
| "truthy (JBool b) = b"
| "truthy (JNum x) = (x \<noteq> 0)"
| "truthy (JStr x) = (x \<noteq> [])"
| "truthy (JArr vs) = True"
| "truthy (JObj fs) = True"

record response =
  status :: nat
  json :: json

text \<open>\<open>res.status(st).json({...})\<close>; \<open>res.json\<close> alone answers with status 200.\<close>

definition reply :: "nat \<Rightarrow> (string \<times> json) list \<Rightarrow> response" where
  "reply st fs = \<lparr>status = st, json = JObj fs\<rparr>"

text \<open>The body \<open>{ success: false, message: m }\<close> shared by every rejection.\<close>

definition failure :: "string \<Rightarrow> (string \<times> json) list" where
  "failure m = [(''success'', JBool False), (''message'', JStr m)]"

subsection \<open>String operations of JavaScript and of the schema setters\<close>

text \<open>\<open>s.split(sep)\<close> for a one-character separator: every occurrence cuts, empty pieces are kept.\<close>

fun js_split :: "char \<Rightarrow> string \<Rightarrow> string list" where
  "js_split sep [] = [] # []"
| "js_split sep (c # cs) =
     (if c = sep then [] # js_split sep cs
      else (case js_split sep cs of [] \<Rightarrow> [c] # [] | w # ws \<Rightarrow> (c # w) # ws))"

text \<open>\<open>roles.join(sep)\<close>.\<close>

fun join :: "string \<Rightarrow> string list \<Rightarrow> string" where
  "join sep [] = []"
| "join sep [x] = x"
| "join sep (x # y # ys) = x @ sep @ join sep (y # ys)"

text \<open>
  The \<open>trim: true\<close> setter of \<open>username\<close> is \<open>String.prototype.trim\<close>. It strips white
  space and line terminators from both ends; among the code units of the model these are
  tab, line feed, vertical tab, form feed, carriage return, space and the no-break space
  U+00A0.
\<close>

definition js_space :: "char \<Rightarrow> bool" where
  "js_space c =
     (c \<in> set [CHR 0x09, CHR 0x0A, CHR 0x0B, CHR 0x0C, CHR 0x0D, CHR 0x20, CHR 0xA0])"

definition trim :: "string \<Rightarrow> string" where
  "trim s = rev (dropWhile js_space (rev (dropWhile js_space s)))"

text \<open>
  The \<open>lowercase: true\<close> setter of \<open>email\<close> is \<open>String.prototype.toLowerCase\<close>. Among
  the code units of the model the upper-case letters are A to Z (U+0041 to U+005A) and
  U+00C0 to U+00DE without the multiplication sign U+00D7; each has its lower-case letter
  32 places on.
\<close>

definition lower_char :: "char \<Rightarrow> char" where
  "lower_char c =
     (let n = (of_char c :: nat)
      in if (65 \<le> n \<and> n \<le> 90) \<or> (192 \<le> n \<and> n \<le> 222 \<and> n \<noteq> 215)
         then char_of (n + 32) else c)"

definition lowercase :: "string \<Rightarrow> string" where
  "lowercase s = map lower_char s"

text \<open>
  The \<open>match: /.+\@.+\..+/\<close> validator of \<open>email\<close>. The expression is not anchored, and
  \<open>.\<close> matches any code unit but a line terminator: somewhere in the string there is an
  \<open>@\<close> with such a code unit before it, followed by one or more of them, a dot, and one more.
\<close>

definition line_end :: "char \<Rightarrow> bool" where
  "line_end c = (c = CHR 0x0A \<or> c = CHR 0x0D)"

fun after_dot :: "string \<Rightarrow> bool" where
  "after_dot [] = False"
| "after_dot (c # cs) = (\<not> line_end c)"

fun after_at :: "bool \<Rightarrow> string \<Rightarrow> bool" where
  "after_at seen [] = False"
| "after_at seen (c # cs) =
     (if line_end c then False
      else (seen \<and> c = CHR ''.'' \<and> after_dot cs) \<or> after_at True cs)"

fun match_email :: "bool \<Rightarrow> string \<Rightarrow> bool" where
  "match_email prev [] = False"
| "match_email prev (c # cs) =
     ((prev \<and> c = CHR ''@'' \<and> after_at False cs) \<or> match_email (\<not> line_end c) cs)"

section \<open>Data model\<close>

text \<open>
  A stored document of \<open>userSchema\<close>. \<open>doc_id\<close> is \<open>_id\<close>; \<open>password\<close> holds the bcrypt
  hash once the document is saved. The three required paths hold strings; \<open>role\<close> and
  \<open>isActive\<close> are not required, so the store can hold \<open>null\<close> (\<open>None\<close>) there. The
  collection is the list of its documents in insertion order.
\<close>

record user_doc =
  doc_id :: string
  username :: string
  email :: string
  password :: string
  role :: "string option"
  isActive :: "bool option"
  createdAt :: nat

type_synonym users = "user_doc list"

text \<open>The \<open>enum\<close> of the schema path \<open>role\<close>.\<close>

definition role_enum :: "string list" where
  "role_enum = [''user'', ''admin'', ''moderator'']"

text \<open>
  The payload handed to \<open>jwt.sign\<close>, and the object \<open>jwt.verify\<close> gives back, which
  carries the issue and expiry times as well. The role is the stored one, a string or
  \<open>null\<close>.
\<close>

record identity =
  userId :: string
  tk_username :: string
  tk_email :: string
  tk_role :: "string option"

record decoded = identity +
  iat :: nat
  expiry :: nat

text \<open>
  The fields the handlers read from \<open>req.body\<close>: any JSON value, or \<open>None\<close> for a field
  the body does not have (\<open>undefined\<close>).
\<close>

record req_body =
  b_username :: "json option"
  b_email :: "json option"
  b_password :: "json option"
  b_role :: "json option"
  b_isActive :: "json option"
  b_currentPassword :: "json option"
  b_newPassword :: "json option"

record request =
  authorization :: "string option"
  params_id :: string
  body :: req_body
  user :: "decoded option"

text \<open>
  Errors thrown inside a handler's \<open>try\<close> block and answered by its \<open>catch\<close>;
  \<open>ValidationError\<close> and \<open>CastError\<close> name the paths.
\<close>

datatype error =
    ValidationError "string list"
  | DuplicateKey string
  | CastError string
  | TypeError
  | BcryptError

text \<open>
  What the libraries compute, taken as parameters of every operation:
  \<^item> \<open>jwt.verify(token, JWT_SECRET)\<close> (\<open>None\<close> when it throws) and \<open>jwt.sign\<close> with the
    secret and \<open>expiresIn: '24h'\<close>;
  \<^item> bcrypt's hash and compare;
  \<^item> the cast of a string to an ObjectId (\<open>None\<close> when the string is not one), and the
    ObjectId the driver makes for a new document;
  \<^item> the schema's cast to a String path of a value that is neither \<open>null\<close> nor a string,
    and to a Boolean path of a value that is neither \<open>null\<close> nor a boolean (\<open>None\<close> when
    the cast throws);
  \<^item> whether the \<open>enum\<close> validator lets \<open>null\<close> pass on a path that is not required;
  \<^item> what \<open>findOne({ email })\<close> finds for a query value that is neither \<open>null\<close> nor a
    string (an object is read as query operators);
  \<^item> \<open>Date.now\<close>, and the text of \<open>error.message\<close>.
\<close>

record env =
  jwt_verify :: "string \<Rightarrow> decoded option"
  jwt_sign :: "identity \<Rightarrow> string"
  bcrypt_hash :: "string \<Rightarrow> string"
  bcrypt_compare :: "string \<Rightarrow> string \<Rightarrow> bool"
  castObjectId :: "string \<Rightarrow> string option"
  newObjectId :: string
  cast_string :: "json \<Rightarrow> string option"
  cast_boolean :: "json \<Rightarrow> bool option"
  enum_null :: bool
  query_email :: "user_doc list \<Rightarrow> json \<Rightarrow> error + user_doc option"
  now :: nat
  message :: "error \<Rightarrow> string"

section \<open>Middleware\<close>

text \<open>
  A middleware either answers (\<open>Inl\<close>) or calls \<open>next()\<close> with the request it may have
  written to (\<open>Inr\<close>). \<open>chain\<close> is the route: the middlewares in order, then the handler,
  which runs on the collection and returns it updated.
\<close>

type_synonym middleware = "request \<Rightarrow> response + request"
type_synonym handler = "request \<Rightarrow> users \<Rightarrow> response \<times> users"

fun chain :: "middleware list \<Rightarrow> handler \<Rightarrow> handler" where
  "chain [] h r s = h r s"
| "chain (m # ms) h r s =
     (case m r of Inl resp \<Rightarrow> (resp, s) | Inr r' \<Rightarrow> chain ms h r' s)"

text \<open>\<open>req.headers.authorization?.split(' ')[1]\<close>; \<open>None\<close> is \<open>undefined\<close>.\<close>

definition bearer :: "string option \<Rightarrow> string option" where
  "bearer h =
     (case h of
        None \<Rightarrow> None
      | Some v \<Rightarrow> (case js_split CHR 0x20 v of a # t # rest \<Rightarrow> Some t | _ \<Rightarrow> None))"

text \<open>\<open>!token\<close>: the token is \<open>undefined\<close> or the empty string.\<close>

definition no_token :: "string option \<Rightarrow> bool" where
  "no_token t = (t = None \<or> t = Some [])"

definition authenticate :: "env \<Rightarrow> middleware" where
  "authenticate env r =
     (case bearer (authorization r) of
        None \<Rightarrow> Inl (reply 401 (failure ''Access denied. No token provided.''))
      | Some t \<Rightarrow>
          if t = [] then Inl (reply 401 (failure ''Access denied. No token provided.''))
          else (case jwt_verify env t of
                  Some d \<Rightarrow> Inr (r\<lparr>user := Some d\<rparr>)
                | None \<Rightarrow> Inl (reply 403 (failure ''Invalid or expired token.''))))"

text \<open>\<open>roles.includes(v)\<close> for a value that is a string or \<open>null\<close>.\<close>

definition js_includes :: "string list \<Rightarrow> string option \<Rightarrow> bool" where
  "js_includes xs v = (case v of None \<Rightarrow> False | Some x \<Rightarrow> x \<in> set xs)"

definition authorize :: "string list \<Rightarrow> middleware" where
  "authorize roles r =
     (case user r of
        None \<Rightarrow> Inl (reply 401 (failure ''User not authenticated.''))
      | Some d \<Rightarrow>
          if \<not> js_includes roles (tk_role d)
          then Inl (reply 403 (failure (''Access denied. Required role: '' @ join '' or '' roles)))
          else Inr r)"

definition adminOnly :: middleware where
  "adminOnly r =
     (case user r of
        None \<Rightarrow> Inl (reply 401 (failure ''User not authenticated.''))
      | Some d \<Rightarrow>
          if tk_role d \<noteq> Some ''admin''
          then Inl (reply 403 (failure ''Access denied. Admin role required.''))
          else Inr r)"

section \<open>The User model\<close>

text \<open>The document as JSON, and the projection \<open>.select('-password')\<close>.\<close>

definition toJSON :: "user_doc \<Rightarrow> (string \<times> json) list" where
  "toJSON u =
     [(''_id'', JStr (doc_id u)), (''username'', JStr (username u)), (''email'', JStr (email u)),
      (''password'', JStr (password u)), (''role'', jstr (role u)),
      (''isActive'', jbool (isActive u)), (''createdAt'', JNum (real (createdAt u)))]"

definition select_minus :: "string \<Rightarrow> (string \<times> json) list \<Rightarrow> json" where
  "select_minus k fs = JObj (filter (\<lambda>f. fst f \<noteq> k) fs)"

definition selected :: "user_doc option \<Rightarrow> json" where
  "selected d = (case d of None \<Rightarrow> JNull | Some u \<Rightarrow> select_minus ''password'' (toJSON u))"

text \<open>
  The schema's cast of a value to a String path: \<open>null\<close> stays \<open>null\<close>, a string is
  itself, and for any other value the library decides; a cast that throws is a
  \<open>CastError\<close> on the path.
\<close>

definition castString :: "env \<Rightarrow> string \<Rightarrow> json \<Rightarrow> error + string option" where
  "castString env path v =
     (case v of
        JNull \<Rightarrow> Inr None
      | JStr x \<Rightarrow> Inr (Some x)
      | _ \<Rightarrow> (case cast_string env v of None \<Rightarrow> Inl (CastError path) | Some x \<Rightarrow> Inr (Some x)))"

text \<open>The same for a Boolean path.\<close>

definition castBoolean :: "env \<Rightarrow> string \<Rightarrow> json \<Rightarrow> error + bool option" where
  "castBoolean env path v =
     (case v of
        JNull \<Rightarrow> Inr None
      | JBool b \<Rightarrow> Inr (Some b)
      | _ \<Rightarrow> (case cast_boolean env v of None \<Rightarrow> Inl (CastError path) | Some b \<Rightarrow> Inr (Some b)))"

text \<open>
  Setting a String path to a value of the request: a field the body lacks leaves the path
  unset, otherwise the value is cast and the setter of the path runs on the string.
\<close>

definition set_path ::
  "env \<Rightarrow> string \<Rightarrow> (string \<Rightarrow> string) \<Rightarrow> json option \<Rightarrow> error + string option" where
  "set_path env path setter v =
     (case v of
        None \<Rightarrow> Inr None
      | Some j \<Rightarrow> (case castString env path j of
                    Inl e \<Rightarrow> Inl e
                  | Inr x \<Rightarrow> Inr (map_option setter x)))"

text \<open>
  The validators the schema declares: \<open>required\<close>, \<open>match\<close>, \<open>minlength\<close>, \<open>enum\<close>. A
  path whose cast failed is invalid; \<open>match\<close> and \<open>minlength\<close> pass an unset or empty
  path on to \<open>required\<close>.
\<close>

definition required :: "error + string option \<Rightarrow> bool" where
  "required v = (case v of Inr (Some x) \<Rightarrow> x \<noteq> [] | _ \<Rightarrow> False)"

definition match_valid :: "error + string option \<Rightarrow> bool" where
  "match_valid v = (case v of Inr (Some x) \<Rightarrow> x = [] \<or> match_email False x | Inr None \<Rightarrow> True
                    | Inl e \<Rightarrow> False)"

definition minlength :: "nat \<Rightarrow> error + string option \<Rightarrow> bool" where
  "minlength n v = (case v of Inr (Some x) \<Rightarrow> n \<le> length x | Inr None \<Rightarrow> True | Inl e \<Rightarrow> False)"

definition enum_valid :: "env \<Rightarrow> error + string option \<Rightarrow> bool" where
  "enum_valid env v =
     (case v of Inr (Some x) \<Rightarrow> x \<in> set role_enum | Inr None \<Rightarrow> enum_null env | Inl e \<Rightarrow> False)"

text \<open>
  \<open>new User({ username, email, password, role })\<close>: each path is cast and its setter
  runs when it is set.
\<close>

record draft =
  d_username :: "error + string option"
  d_email :: "error + string option"
  d_password :: "error + string option"
  d_role :: "error + string option"

definition new_User :: "env \<Rightarrow> json option \<Rightarrow> json option \<Rightarrow> json option \<Rightarrow> json \<Rightarrow> draft" where
  "new_User env un em pw rl =
     \<lparr>d_username = set_path env ''username'' trim un,
      d_email = set_path env ''email'' lowercase em,
      d_password = set_path env ''password'' (\<lambda>x. x) pw,
      d_role = set_path env ''role'' (\<lambda>x. x) (Some rl)\<rparr>"

text \<open>The paths that fail validation.\<close>

definition validate :: "env \<Rightarrow> draft \<Rightarrow> string list" where
  "validate env d =
     (if required (d_username d) then [] else [''username'']) @
     (if required (d_email d) \<and> match_valid (d_email d) then [] else [''email'']) @
     (if required (d_password d) \<and> minlength 6 (d_password d) then [] else [''password'']) @
     (if enum_valid env (d_role d) then [] else [''role''])"

text \<open>
  \<open>user.save()\<close> of a new document: validation, then the \<open>pre('save')\<close> hook that hashes
  the password, then the insert, which the unique indexes of \<open>username\<close> and \<open>email\<close> can
  refuse. The defaults fill \<open>isActive\<close> and \<open>createdAt\<close>.
\<close>

definition save_new :: "env \<Rightarrow> draft \<Rightarrow> users \<Rightarrow> error + user_doc \<times> users" where
  "save_new env d s =
     (case (d_username d, d_email d, d_password d, d_role d) of
        (Inr (Some un), Inr (Some em), Inr (Some pw), Inr rl) \<Rightarrow>
          if validate env d \<noteq> [] then Inl (ValidationError (validate env d))
          else if \<exists>v \<in> set s. username v = un then Inl (DuplicateKey ''username'')
          else if \<exists>v \<in> set s. email v = em then Inl (DuplicateKey ''email'')
          else
            (let u = \<lparr>doc_id = newObjectId env, username = un, email = em,
                      password = bcrypt_hash env pw, role = rl,
                      isActive = Some True, createdAt = now env\<rparr>
             in Inr (u, s @ [u]))
      | _ \<Rightarrow> Inl (ValidationError (validate env d)))"

text \<open>
  \<open>User.findOne({ email })\<close>: a string goes through the setter of the path and is looked
  up; \<open>undefined\<close> and \<open>null\<close> match no document, since every document has an email;
  any other query value is the library's to read.
\<close>

definition findOne_email :: "env \<Rightarrow> users \<Rightarrow> json option \<Rightarrow> error + user_doc option" where
  "findOne_email env s e =
     (case e of
        None \<Rightarrow> Inr None
      | Some JNull \<Rightarrow> Inr None
      | Some (JStr v) \<Rightarrow> Inr (find (\<lambda>u. email u = lowercase v) s)
      | Some q \<Rightarrow> query_email env s q)"

text \<open>\<open>User.findById(id)\<close>.\<close>

definition findById :: "env \<Rightarrow> users \<Rightarrow> string \<Rightarrow> error + user_doc option" where
  "findById env s i =
     (case castObjectId env i of
        None \<Rightarrow> Inl (CastError ''_id'')
      | Some oid \<Rightarrow> Inr (find (\<lambda>u. doc_id u = oid) s))"

fun update_first :: "('a \<Rightarrow> bool) \<Rightarrow> ('a \<Rightarrow> 'a) \<Rightarrow> 'a list \<Rightarrow> 'a list" where
  "update_first P f [] = []"
| "update_first P f (x # xs) = (if P x then f x # xs else x # update_first P f xs)"

fun remove_first :: "('a \<Rightarrow> bool) \<Rightarrow> 'a list \<Rightarrow> 'a list" where
  "remove_first P [] = []"
| "remove_first P (x # xs) = (if P x then xs else x # remove_first P xs)"

text \<open>
  \<open>User.findByIdAndUpdate(id, update, { new: true })\<close>: the updated document, or
  \<open>null\<close> when no document has the id.
\<close>

definition findByIdAndUpdate ::
  "env \<Rightarrow> string \<Rightarrow> (user_doc \<Rightarrow> user_doc) \<Rightarrow> users \<Rightarrow> error + user_doc option \<times> users" where
  "findByIdAndUpdate env i f s =
     (case castObjectId env i of
        None \<Rightarrow> Inl (CastError ''_id'')
      | Some oid \<Rightarrow>
          (case find (\<lambda>u. doc_id u = oid) s of
             None \<Rightarrow> Inr (None, s)
           | Some u \<Rightarrow> Inr (Some (f u), update_first (\<lambda>u. doc_id u = oid) f s)))"

text \<open>\<open>User.findByIdAndDelete(id)\<close>: the deleted document, or \<open>null\<close>.\<close>

definition findByIdAndDelete :: "env \<Rightarrow> string \<Rightarrow> users \<Rightarrow> error + user_doc option \<times> users" where
  "findByIdAndDelete env i s =
     (case castObjectId env i of
        None \<Rightarrow> Inl (CastError ''_id'')
      | Some oid \<Rightarrow>
          (case find (\<lambda>u. doc_id u = oid) s of
             None \<Rightarrow> Inr (None, s)
           | Some u \<Rightarrow> Inr (Some u, remove_first (\<lambda>u. doc_id u = oid) s)))"

text \<open>
  One field of the update of \<open>PUT /profile\<close>: a field the body lacks is not part of the
  update (\<open>None\<close>); otherwise the value is cast, the setter runs, and \<open>null\<close> or a failed
  cast is left for the validators to refuse.
\<close>

definition update_field ::
  "env \<Rightarrow> string \<Rightarrow> (string \<Rightarrow> string) \<Rightarrow> json option \<Rightarrow> (error + string option) option" where
  "update_field env path setter v =
     (case v of None \<Rightarrow> None | Some j \<Rightarrow> Some (set_path env path setter (Some j)))"

text \<open>The value a path has after the update.\<close>

definition updated :: "(error + string option) option \<Rightarrow> string \<Rightarrow> string" where
  "updated f old = (case f of Some (Inr (Some x)) \<Rightarrow> x | _ \<Rightarrow> old)"

text \<open>
  The update of \<open>PUT /profile\<close>, \<open>{ username, email }\<close> with \<open>runValidators: true\<close>: the
  validators of the paths that are updated run before the write, and the unique indexes
  guard it.
\<close>

definition update_profile ::
  "env \<Rightarrow> string \<Rightarrow> json option \<Rightarrow> json option \<Rightarrow> users \<Rightarrow> error + user_doc option \<times> users" where
  "update_profile env i un0 em0 s =
     (let un = update_field env ''username'' trim un0;
          em = update_field env ''email'' lowercase em0;
          bad = (case un of None \<Rightarrow> [] | Some v \<Rightarrow> if required v then [] else [''username'']) @
                (case em of None \<Rightarrow> []
                 | Some v \<Rightarrow> if required v \<and> match_valid v then [] else [''email''])
      in case castObjectId env i of
           None \<Rightarrow> Inl (CastError ''_id'')
         | Some oid \<Rightarrow>
             if bad \<noteq> [] then Inl (ValidationError bad)
             else if \<exists>v \<in> set s. doc_id v \<noteq> oid \<and> un = Some (Inr (Some (username v)))
               then Inl (DuplicateKey ''username'')
             else if \<exists>v \<in> set s. doc_id v \<noteq> oid \<and> em = Some (Inr (Some (email v)))
               then Inl (DuplicateKey ''email'')
             else findByIdAndUpdate env i
                    (\<lambda>u. u\<lparr>username := updated un (username u),
                            email := updated em (email u)\<rparr>) s)"

text \<open>
  \<open>user.password = newPassword; await user.save()\<close> on a loaded document: the password
  path is validated, and the hook hashes it when \<open>isModified('password')\<close>.
\<close>

definition save_password :: "env \<Rightarrow> user_doc \<Rightarrow> json option \<Rightarrow> users \<Rightarrow> error + users" where
  "save_password env u np s =
     (let v = set_path env ''password'' (\<lambda>x. x) np
      in if \<not> (required v \<and> minlength 6 v) then Inl (ValidationError [''password''])
         else (case v of
                 Inr (Some p) \<Rightarrow>
                   Inr (update_first (\<lambda>w. doc_id w = doc_id u)
                          (\<lambda>w. w\<lparr>password := (if p = password u then p else bcrypt_hash env p)\<rparr>) s)
               | _ \<Rightarrow> Inl (ValidationError [''password''])))"

text \<open>
  \<open>user.comparePassword(candidate)\<close>: bcrypt refuses an argument that is missing or not a
  string.
\<close>

definition comparePassword :: "env \<Rightarrow> user_doc \<Rightarrow> json option \<Rightarrow> error + bool" where
  "comparePassword env u c =
     (case c of
        Some (JStr p) \<Rightarrow> Inr (bcrypt_compare env p (password u))
      | _ \<Rightarrow> Inl BcryptError)"

section \<open>Routes\<close>

text \<open>The payload both \<open>jwt.sign\<close> calls build from the saved document.\<close>

definition identity_of :: "user_doc \<Rightarrow> identity" where
  "identity_of u =
     \<lparr>userId = doc_id u, tk_username = username u, tk_email = email u, tk_role = role u\<rparr>"

text \<open>The \<open>user\<close> object that signup and login write out field by field.\<close>

definition public_user :: "user_doc \<Rightarrow> json" where
  "public_user u =
     JObj [(''id'', JStr (doc_id u)), (''username'', JStr (username u)),
           (''email'', JStr (email u)), (''role'', jstr (role u))]"

text \<open>\<open>req.user\<close> as JSON.\<close>

definition decoded_json :: "decoded \<Rightarrow> json" where
  "decoded_json d =
     JObj [(''userId'', JStr (userId d)), (''username'', JStr (tk_username d)),
           (''email'', JStr (tk_email d)), (''role'', jstr (tk_role d)),
           (''iat'', JNum (real (iat d))), (''exp'', JNum (real (expiry d)))]"

definition home :: handler where
  "home r s =
     (reply 200
        [(''message'', JStr ''RBAC API System''),
         (''endpoints'', JObj
            [(''public'', JArr [JStr ''POST /signup'', JStr ''POST /login'']),
             (''user'', JArr [JStr ''GET /profile'', JStr ''PUT /profile'']),
             (''admin'', JArr [JStr ''GET /admin'', JStr ''GET /admin/users'',
                               JStr ''PUT /admin/users/:id/role''])])], s)"

text \<open>
  Signup. \<open>role = 'user'\<close> in the destructuring gives the default to a body without the
  field only, and \<open>role === 'admin'\<close> holds of the string \<open>admin\<close> only; any other value
  goes to \<open>new User\<close> as it is.
\<close>

definition signup :: "env \<Rightarrow> handler" where
  "signup env r s =
     (let b = body r;
          role0 = (case b_role b of None \<Rightarrow> JStr ''user'' | Some v \<Rightarrow> v);
          userRole = (if role0 = JStr ''admin'' then JStr ''user'' else role0)
      in case save_new env (new_User env (b_username b) (b_email b) (b_password b) userRole) s of
           Inl e \<Rightarrow> (reply 400 (failure (message env e)), s)
         | Inr (u, s') \<Rightarrow>
             (reply 201
                [(''success'', JBool True),
                 (''message'', JStr ''User registered successfully''),
                 (''user'', public_user u),
                 (''token'', JStr (jwt_sign env (identity_of u)))], s'))"

definition login :: "env \<Rightarrow> handler" where
  "login env r s =
     (case findOne_email env s (b_email (body r)) of
        Inl e \<Rightarrow> (reply 500 (failure (message env e)), s)
      | Inr None \<Rightarrow> (reply 401 (failure ''Invalid credentials''), s)
      | Inr (Some u) \<Rightarrow>
          if isActive u \<noteq> Some True then (reply 403 (failure ''Account is deactivated''), s)
          else (case comparePassword env u (b_password (body r)) of
                  Inl e \<Rightarrow> (reply 500 (failure (message env e)), s)
                | Inr isMatch \<Rightarrow>
                    if \<not> isMatch then (reply 401 (failure ''Invalid credentials''), s)
                    else
                      (reply 200
                         [(''success'', JBool True),
                          (''message'', JStr ''Login successful''),
                          (''user'', public_user u),
                          (''token'', JStr (jwt_sign env (identity_of u)))], s)))"

text \<open>
  In the protected handlers \<open>req.user\<close> is read inside the \<open>try\<close> block: were it unset,
  the read would throw and the \<open>catch\<close> would answer.
\<close>

definition get_profile :: "env \<Rightarrow> handler" where
  "get_profile env r s =
     (case user r of
        None \<Rightarrow> (reply 500 (failure (message env TypeError)), s)
      | Some d \<Rightarrow>
          (case findById env s (userId d) of
             Inl e \<Rightarrow> (reply 500 (failure (message env e)), s)
           | Inr u \<Rightarrow> (reply 200 [(''success'', JBool True), (''user'', selected u)], s)))"

definition put_profile :: "env \<Rightarrow> handler" where
  "put_profile env r s =
     (case user r of
        None \<Rightarrow> (reply 400 (failure (message env TypeError)), s)
      | Some d \<Rightarrow>
          (case update_profile env (userId d) (b_username (body r)) (b_email (body r)) s of
             Inl e \<Rightarrow> (reply 400 (failure (message env e)), s)
           | Inr (updatedUser, s') \<Rightarrow>
               (reply 200
                  [(''success'', JBool True),
                   (''message'', JStr ''Profile updated successfully''),
                   (''user'', selected updatedUser)], s')))"

definition change_password :: "env \<Rightarrow> handler" where
  "change_password env r s =
     (case user r of
        None \<Rightarrow> (reply 400 (failure (message env TypeError)), s)
      | Some d \<Rightarrow>
          (case findById env s (userId d) of
             Inl e \<Rightarrow> (reply 400 (failure (message env e)), s)
           | Inr None \<Rightarrow> (reply 400 (failure (message env TypeError)), s)
           | Inr (Some u) \<Rightarrow>
               (case comparePassword env u (b_currentPassword (body r)) of
                  Inl e \<Rightarrow> (reply 400 (failure (message env e)), s)
                | Inr isMatch \<Rightarrow>
                    if \<not> isMatch
                    then (reply 401 (failure ''Current password is incorrect''), s)
                    else (case save_password env u (b_newPassword (body r)) s of
                            Inl e \<Rightarrow> (reply 400 (failure (message env e)), s)
                          | Inr s' \<Rightarrow>
                              (reply 200
                                 [(''success'', JBool True),
                                  (''message'', JStr ''Password changed successfully'')],
                               s')))))"

definition admin_dashboard :: handler where
  "admin_dashboard r s =
     (reply 200
        ([(''success'', JBool True), (''message'', JStr ''Welcome to Admin Dashboard'')] @
         (case user r of None \<Rightarrow> [] | Some d \<Rightarrow> [(''admin'', decoded_json d)]) @
         [(''features'', JArr [JStr ''View all users'', JStr ''Manage user roles'',
                               JStr ''Activate/deactivate users'',
                               JStr ''View system statistics''])]), s)"

definition admin_users :: handler where
  "admin_users r s =
     (reply 200
        [(''success'', JBool True),
         (''stats'', JObj
            [(''total'', JNum (real (length s))),
             (''active'', JNum (real (length (filter (\<lambda>u. isActive u = Some True) s)))),
             (''admins'', JNum (real (length (filter (\<lambda>u. role u = Some ''admin'') s)))),
             (''users'', JNum (real (length (filter (\<lambda>u. role u = Some ''user'') s)))),
             (''moderators'',
                JNum (real (length (filter (\<lambda>u. role u = Some ''moderator'') s))))]),
         (''users'', JArr (map (\<lambda>u. selected (Some u)) s))], s)"

text \<open>
  The role change. \<open>['user', 'admin', 'moderator'].includes(role)\<close> holds of these three
  strings only.
\<close>

definition put_role :: "env \<Rightarrow> handler" where
  "put_role env r s =
     (case user r of
        None \<Rightarrow> (reply 400 (failure (message env TypeError)), s)
      | Some d \<Rightarrow>
          if params_id r = userId d
          then (reply 400 (failure ''Cannot modify your own role''), s)
          else (case b_role (body r) of
                  Some (JStr rl) \<Rightarrow>
                    if rl \<notin> set [''user'', ''admin'', ''moderator'']
                    then (reply 400 (failure ''Invalid role''), s)
                    else (case findByIdAndUpdate env (params_id r)
                                 (\<lambda>u. u\<lparr>role := Some rl\<rparr>) s of
                            Inl e \<Rightarrow> (reply 400 (failure (message env e)), s)
                          | Inr (None, s') \<Rightarrow> (reply 404 (failure ''User not found''), s')
                          | Inr (Some u, s') \<Rightarrow>
                              (reply 200
                                 [(''success'', JBool True),
                                  (''message'', JStr (''User role updated to '' @ rl)),
                                  (''user'', selected (Some u))], s'))
                | _ \<Rightarrow> (reply 400 (failure ''Invalid role''), s)))"

text \<open>
  The status change, \<open>{ isActive }\<close> without validators: a field the body lacks is not
  part of the update, otherwise the value is cast to the Boolean path. The message takes
  the value of the body as a condition.
\<close>

definition put_status :: "env \<Rightarrow> handler" where
  "put_status env r s =
     (case user r of
        None \<Rightarrow> (reply 400 (failure (message env TypeError)), s)
      | Some d \<Rightarrow>
          if params_id r = userId d
          then (reply 400 (failure ''Cannot deactivate yourself''), s)
          else (case (case b_isActive (body r) of
                        None \<Rightarrow> Inr None
                      | Some j \<Rightarrow> (case castBoolean env ''isActive'' j of
                                    Inl e \<Rightarrow> Inl e | Inr a \<Rightarrow> Inr (Some a))) of
                  Inl e \<Rightarrow> (reply 400 (failure (message env e)), s)
                | Inr upd \<Rightarrow>
                    (case findByIdAndUpdate env (params_id r)
                            (\<lambda>u. case upd of None \<Rightarrow> u | Some a \<Rightarrow> u\<lparr>isActive := a\<rparr>) s of
                       Inl e \<Rightarrow> (reply 400 (failure (message env e)), s)
                     | Inr (None, s') \<Rightarrow> (reply 404 (failure ''User not found''), s')
                     | Inr (Some u, s') \<Rightarrow>
                         (reply 200
                            [(''success'', JBool True),
                             (''message'', JStr (''User '' @
                                (if (case b_isActive (body r) of None \<Rightarrow> False
                                     | Some j \<Rightarrow> truthy j)
                                 then ''activated'' else ''deactivated'') @ '' successfully'')),
                             (''user'', selected (Some u))], s'))))"

definition delete_user :: "env \<Rightarrow> handler" where
  "delete_user env r s =
     (case user r of
        None \<Rightarrow> (reply 500 (failure (message env TypeError)), s)
      | Some d \<Rightarrow>
          if params_id r = userId d
          then (reply 400 (failure ''Cannot delete yourself''), s)
          else (case findByIdAndDelete env (params_id r) s of
                  Inl e \<Rightarrow> (reply 500 (failure (message env e)), s)
                | Inr (None, s') \<Rightarrow> (reply 404 (failure ''User not found''), s')
                | Inr (Some u, s') \<Rightarrow>
                    (reply 200
                       [(''success'', JBool True),
                        (''message'', JStr ''User deleted successfully'')], s')))"

definition moderator_dashboard :: handler where
  "moderator_dashboard r s =
     (reply 200
        ([(''success'', JBool True), (''message'', JStr ''Welcome to Moderator Dashboard'')] @
         (case user r of None \<Rightarrow> [] | Some d \<Rightarrow> [(''user'', decoded_json d)]) @
         [(''permissions'', JArr [JStr ''View flagged content'', JStr ''Manage user comments'',
                                  JStr ''View user reports''])]), s)"

definition moderator_active :: handler where
  "moderator_active r s =
     (reply 200
        [(''success'', JBool True),
         (''count'', JNum (real (length (filter (\<lambda>u. isActive u = Some True) s)))),
         (''users'', JArr (map (\<lambda>u. selected (Some u)) (filter (\<lambda>u. isActive u = Some True) s)))],
      s)"

text \<open>The routing table: each route with its middlewares, as \<open>app.get/post/put/delete\<close> register it.\<close>

datatype route =
    Home | Signup | Login | GetProfile | PutProfile | ChangePassword
  | Admin | AdminUsers | PutRole | PutStatus | DeleteUser
  | Moderator | ModeratorActive

fun handle :: "env \<Rightarrow> route \<Rightarrow> handler" where
  "handle env Home = chain [] home"
| "handle env Signup = chain [] (signup env)"
| "handle env Login = chain [] (login env)"
| "handle env GetProfile = chain [authenticate env] (get_profile env)"
| "handle env PutProfile = chain [authenticate env] (put_profile env)"
| "handle env ChangePassword = chain [authenticate env] (change_password env)"
| "handle env Admin = chain [authenticate env, adminOnly] admin_dashboard"
| "handle env AdminUsers = chain [authenticate env, authorize [''admin'']] admin_users"
| "handle env PutRole = chain [authenticate env, authorize [''admin'']] (put_role env)"
| "handle env PutStatus = chain [authenticate env, authorize [''admin'']] (put_status env)"
| "handle env DeleteUser = chain [authenticate env, authorize [''admin'']] (delete_user env)"
| "handle env Moderator =
     chain [authenticate env, authorize [''moderator'', ''admin'']] moderator_dashboard"
| "handle env ModeratorActive =
     chain [authenticate env, authorize [''moderator'', ''admin'']] moderator_active"

section \<open>The specification's reading of the header\<close>

definition is_space :: "char \<Rightarrow> bool" where
  "is_space c = (c \<in> set [CHR 0x20, CHR 0x09, CHR 0x0A, CHR 0x0B, CHR 0x0C, CHR 0x0D])"

text \<open>Follows the specification's words: the fields of a header are its maximal runs of
  characters that are not whitespace.\<close>

fun whitespace_fields :: "string \<Rightarrow> string list" where
  "whitespace_fields [] = []"
| "whitespace_fields (c # cs) =
     (if is_space c then whitespace_fields cs
      else (case cs of
              [] \<Rightarrow> [c] # []
            | d # ds \<Rightarrow>
                if is_space d then [c] # whitespace_fields cs
                else (case whitespace_fields cs of [] \<Rightarrow> [c] # [] | w # ws \<Rightarrow> (c # w) # ws)))"

definition second_whitespace_field :: "string \<Rightarrow> string option" where
  "second_whitespace_field v =
     (case whitespace_fields v of a # t # rest \<Rightarrow> Some t | _ \<Rightarrow> None)"

section \<open>A concrete deployment for evaluating the model\<close>

definition demo_admin :: decoded where
  "demo_admin =
     \<lparr>userId = ''a1'', tk_username = ''root'', tk_email = ''root@x.com'',
      tk_role = Some ''admin'', iat = 0, expiry = 86400\<rparr>"

definition demo_moderator :: decoded where
  "demo_moderator =
     \<lparr>userId = ''m1'', tk_username = ''mod'', tk_email = ''mod@x.com'',
      tk_role = Some ''moderator'', iat = 0, expiry = 86400\<rparr>"

definition demo_verify :: "string \<Rightarrow> decoded option" where
  "demo_verify t =
     (if t = ''tokA'' then Some demo_admin
      else if t = ''tokM'' then Some demo_moderator else None)"

definition demo_sign :: "identity \<Rightarrow> string" where
  "demo_sign i = ''jwt.'' @ userId i @ ''.'' @ (case tk_role i of None \<Rightarrow> ''null'' | Some x \<Rightarrow> x)"

definition demo_hash :: "string \<Rightarrow> string" where
  "demo_hash p = ''$2b$'' @ p"

definition demo_compare :: "string \<Rightarrow> string \<Rightarrow> bool" where
  "demo_compare p h = (h = ''$2b$'' @ p)"

definition demo_cast :: "string \<Rightarrow> string option" where
  "demo_cast i = (if i = [] then None else Some i)"

text \<open>A String cast for the deployment: a document stands for its string \<open>_id\<close>, any other
  value is refused.\<close>

definition demo_cast_string :: "json \<Rightarrow> string option" where
  "demo_cast_string v =
     (case v of
        JObj fs \<Rightarrow> (case map_of fs ''_id'' of Some (JStr x) \<Rightarrow> Some x | _ \<Rightarrow> None)
      | _ \<Rightarrow> None)"

definition demo_cast_boolean :: "json \<Rightarrow> bool option" where
  "demo_cast_boolean v =
     (if v = JStr ''true'' \<or> v = JNum 1 then Some True
      else if v = JStr ''false'' \<or> v = JNum 0 then Some False else None)"

definition demo_query :: "users \<Rightarrow> json \<Rightarrow> error + user_doc option" where
  "demo_query s q = Inr None"

definition demo_message :: "error \<Rightarrow> string" where
  "demo_message e =
     (case e of
        ValidationError ps \<Rightarrow> ''User validation failed: '' @ join '', '' ps
      | DuplicateKey p \<Rightarrow> ''E11000 duplicate key error: '' @ p
      | CastError p \<Rightarrow> ''Cast failed for path '' @ p
      | TypeError \<Rightarrow> ''Cannot read properties''
      | BcryptError \<Rightarrow> ''data and hash arguments required'')"

definition demo_env :: env where
  "demo_env =
     \<lparr>jwt_verify = demo_verify, jwt_sign = demo_sign, bcrypt_hash = demo_hash,
      bcrypt_compare = demo_compare, castObjectId = demo_cast, newObjectId = ''u9'',
      cast_string = demo_cast_string, cast_boolean = demo_cast_boolean, enum_null = False,
      query_email = demo_query, now = 1000, message = demo_message\<rparr>"


definition no_body :: req_body where
  "no_body =
     \<lparr>b_username = None, b_email = None, b_password = None, b_role = None,
      b_isActive = None, b_currentPassword = None, b_newPassword = None\<rparr>"

definition demo_users :: users where
  "demo_users =
     [\<lparr>doc_id = ''a1'', username = ''root'', email = ''root@x.com'', password = ''$2b$rootpw'',
       role = Some ''admin'', isActive = Some True, createdAt = 1\<rparr>,
      \<lparr>doc_id = ''m1'', username = ''mod'', email = ''mod@x.com'', password = ''$2b$modpw1'',
       role = Some ''moderator'', isActive = Some True, createdAt = 2\<rparr>,
      \<lparr>doc_id = ''u1'', username = ''carol'', email = ''carol@x.com'', password = ''$2b$carolpw'',
       role = Some ''user'', isActive = Some False, createdAt = 3\<rparr>]"

text \<open>A request with the given \<open>Authorization\<close> header, path id and body.\<close>

definition demo_request :: "string option \<Rightarrow> string \<Rightarrow> req_body \<Rightarrow> request" where
  "demo_request h i b = \<lparr>authorization = h, params_id = i, body = b, user = None\<rparr>"

text \<open>A signup body with the three required fields as strings and the given role.\<close>

definition signup_request :: "string \<Rightarrow> string \<Rightarrow> string \<Rightarrow> json option \<Rightarrow> request" where
  "signup_request un em pw rl =
     demo_request None []
       (no_body\<lparr>b_username := Some (JStr un), b_email := Some (JStr em),
                b_password := Some (JStr pw), b_role := rl\<rparr>)"

definition alice_admin :: request where
  "alice_admin = signup_request ''alice'' ''a@x.com'' ''secret1'' (Some (JStr ''admin''))"



definition login_request :: "string \<Rightarrow> json option \<Rightarrow> request" where
  "login_request e p =
     demo_request None [] (no_body\<lparr>b_email := Some (JStr e), b_password := p\<rparr>)"


subsection \<open>A deployment with ObjectIds\<close>

text \<open>
  The driver's cast of a path string to an ObjectId: 24 hexadecimal digits in either
  case, which denote the id whose \<open>toString\<close> has them in lower case; the token and the
  store carry that lower-case text.
\<close>

definition hex_digit :: "char \<Rightarrow> bool" where
  "hex_digit c = (c \<in> set ''0123456789abcdefABCDEF'')"

definition objectid_cast :: "string \<Rightarrow> string option" where
  "objectid_cast i =
     (if length i = 24 \<and> list_all hex_digit i then Some (lowercase i) else None)"

definition root_admin :: decoded where
  "root_admin =
     \<lparr>userId = ''64a1b2c3d4e5f6a7b8c9d0e1'', tk_username = ''root'', tk_email = ''root@x.com'',
      tk_role = Some ''admin'', iat = 0, expiry = 86400\<rparr>"

definition root_verify :: "string \<Rightarrow> decoded option" where
  "root_verify t = (if t = ''tokR'' then Some root_admin else None)"

definition driver_env :: env where
  "driver_env = demo_env\<lparr>jwt_verify := root_verify, castObjectId := objectid_cast\<rparr>"

definition root_doc :: user_doc where
  "root_doc =
     \<lparr>doc_id = ''64a1b2c3d4e5f6a7b8c9d0e1'', username = ''root'', email = ''root@x.com'',
      password = ''$2b$rootpw'', role = Some ''admin'', isActive = Some True, createdAt = 1\<rparr>"

definition carol_doc :: user_doc where
  "carol_doc =
     \<lparr>doc_id = ''64a1b2c3d4e5f6a7b8c9d0e2'', username = ''carol'', email = ''carol@x.com'',
      password = ''$2b$carolpw'', role = Some ''user'', isActive = Some True, createdAt = 2\<rparr>"

text \<open>The admin's own id, spelled in upper case in the path.\<close>

definition own_id_request :: "req_body \<Rightarrow> request" where
  "own_id_request b = demo_request (Some ''Bearer tokR'') ''64A1B2C3D4E5F6A7B8C9D0E1'' b"

section \<open>Invariants of the collection\<close>






section \<open>The token service\<close>

text \<open>
  Modelled from the spec: the token itself. The sources call \<open>jwt.sign\<close> and
  \<open>jwt.verify\<close> of the jsonwebtoken library and hold none of its code; the
  specification says a token serializes the identity snapshot \<open>{userId, username, email,
  role}\<close> plus issuance and expiry timestamps, signed with the process-wide secret. The
  signature is a tag of type \<open>'g\<close>; times count seconds.
\<close>

record 'g token =
  snapshot :: identity
  issued :: nat
  expires :: nat
  signature :: 'g

text \<open>
  Modelled from the spec: the outcomes of \<open>verify\<close>, an identity snapshot, \<open>Expired\<close> or
  \<open>Invalid\<close>.
\<close>

datatype verdict = Verified identity | Expired | Invalid

text \<open>\<open>JWT_SECRET\<close> and \<open>expiresIn: '24h'\<close>, as the source has them.\<close>

definition JWT_SECRET :: string where
  "JWT_SECRET = ''your-secret-key-change-this-in-production''"

definition expiresIn :: nat where
  "expiresIn = 24 * 60 * 60"

text \<open>
  Modelled from the spec: \<open>issue\<close>, which the library implements as \<open>jwt.sign\<close>. It
  stamps the identity with the time of issuance and an expiry 24 hours later and signs
  the three with the secret; \<open>mac\<close>, the keyed signature function, is a parameter.
\<close>

definition issue ::
  "(string \<Rightarrow> identity \<times> nat \<times> nat \<Rightarrow> 'g) \<Rightarrow> string \<Rightarrow> nat \<Rightarrow> identity \<Rightarrow> 'g token" where
  "issue mac secret t i =
     \<lparr>snapshot = i, issued = t, expires = t + expiresIn,
      signature = mac secret (i, t, t + expiresIn)\<rparr>"

text \<open>
  Modelled from the spec: \<open>verify\<close>, which the library implements as \<open>jwt.verify\<close>. It
  checks signature integrity, then expiry: a token whose signature is not the one the
  secret gives its content is \<open>Invalid\<close>, one whose expiry time has come is \<open>Expired\<close>,
  any other yields its identity snapshot.
\<close>

definition verify ::
  "(string \<Rightarrow> identity \<times> nat \<times> nat \<Rightarrow> 'g) \<Rightarrow> string \<Rightarrow> nat \<Rightarrow> 'g token \<Rightarrow> verdict" where
  "verify mac secret t tok =
     (if signature tok \<noteq> mac secret (snapshot tok, issued tok, expires tok) then Invalid
      else if expires tok \<le> t then Expired
      else Verified (snapshot tok))"

text \<open>A keyed tag for evaluating the token service: the secret next to the signed content.\<close>

definition demo_mac :: "string \<Rightarrow> identity \<times> nat \<times> nat \<Rightarrow> string \<times> identity \<times> nat \<times> nat" where
  "demo_mac secret c = (secret, c)"

section \<open>Properties of the middleware\<close>

lemma js_split_nonempty: "js_split c v \<noteq> []"
  by (induction v) (auto split: list.splits)

lemma js_split_no_sep: "c \<notin> set v \<Longrightarrow> js_split c v = [v]"
  by (induction v) auto

lemma js_split_append:
  "c \<notin> set a \<Longrightarrow> js_split c (a @ c # w) = a # js_split c w"
  by (induction a) (auto split: list.splits simp: js_split_nonempty)

lemma bearer_shape:
  "bearer None = None"
  "CHR 0x20 \<notin> set v \<Longrightarrow> bearer (Some v) = None"
  "CHR 0x20 \<notin> set a \<Longrightarrow> CHR 0x20 \<notin> set t \<Longrightarrow> bearer (Some (a @ CHR 0x20 # t)) = Some t"
  "CHR 0x20 \<notin> set a \<Longrightarrow> CHR 0x20 \<notin> set t \<Longrightarrow>
     bearer (Some (a @ CHR 0x20 # t @ CHR 0x20 # w)) = Some t"
  by (simp_all add: bearer_def js_split_no_sep js_split_append)

lemma authorize_None:
  "user r = None \<Longrightarrow> authorize roles r = Inl (reply 401 (failure ''User not authenticated.''))"
  by (simp add: authorize_def js_includes_def)

lemma authorize_reject:
  "user r = Some d \<Longrightarrow> \<not> js_includes roles (tk_role d) \<Longrightarrow>
   authorize roles r =
     Inl (reply 403 (failure (''Access denied. Required role: '' @ join '' or '' roles)))"
  by (simp add: authorize_def js_includes_def)

lemma authorize_pass:
  "user r = Some d \<Longrightarrow> js_includes roles (tk_role d) \<Longrightarrow> authorize roles r = Inr r"
  by (simp add: authorize_def js_includes_def)

lemma authenticate_ok:
  "bearer (authorization r) = Some t \<Longrightarrow> t \<noteq> [] \<Longrightarrow> jwt_verify env t = Some d \<Longrightarrow>
   authenticate env r = Inr (r\<lparr>user := Some d\<rparr>)"
  by (simp add: authenticate_def)

lemma authenticate_no_token:
  "no_token (bearer (authorization r)) \<Longrightarrow>
   authenticate env r = Inl (reply 401 (failure ''Access denied. No token provided.''))"
  by (auto simp: authenticate_def no_token_def)

lemma authenticate_bad_token:
  "bearer (authorization r) = Some t \<Longrightarrow> t \<noteq> [] \<Longrightarrow> jwt_verify env t = None \<Longrightarrow>
   authenticate env r = Inl (reply 403 (failure ''Invalid or expired token.''))"
  by (simp add: authenticate_def)

lemma authenticate_Inr:
  "authenticate env r = Inr r' \<longleftrightarrow>
   (\<exists>t d. bearer (authorization r) = Some t \<and> t \<noteq> [] \<and> jwt_verify env t = Some d \<and>
          r' = r\<lparr>user := Some d\<rparr>)"
  by (auto simp: authenticate_def split: option.splits)

text \<open>
  C2. The role check: with no identity attached \<open>authorize\<close> answers 401, with an identity
  whose role is not among the accepted roles it answers 403, and in both cases whatever
  follows it in the route does not run (the answer is the same for every handler and the
  collection is returned as it was). On the routes registered with \<open>authorize('admin')\<close>
  a verified token whose role is not admin (a moderator's, say) gets 403
  "Access denied. Required role: admin"; on those registered with
  \<open>authorize('moderator', 'admin')\<close> a role outside the two gets 403 as well.
\<close>

theorem authorize_role_check:
  "(user r = None \<longrightarrow>
      authorize roles r = Inl (reply 401 (failure ''User not authenticated.'')) \<and>
      (\<forall>ms h s. chain (authorize roles # ms) h r s =
         (reply 401 (failure ''User not authenticated.''), s))) \<and>
   (\<forall>d. user r = Some d \<and> \<not> js_includes roles (tk_role d) \<longrightarrow>
      authorize roles r =
        Inl (reply 403 (failure (''Access denied. Required role: '' @ join '' or '' roles))) \<and>
      (\<forall>ms h s. chain (authorize roles # ms) h r s =
         (reply 403 (failure (''Access denied. Required role: '' @ join '' or '' roles)), s))) \<and>
   (\<forall>t d rt s. bearer (authorization r) = Some t \<and> t \<noteq> [] \<and> jwt_verify env t = Some d \<and>
       tk_role d \<noteq> Some ''admin'' \<and> rt \<in> {AdminUsers, PutRole, PutStatus, DeleteUser} \<longrightarrow>
       handle env rt r s = (reply 403 (failure ''Access denied. Required role: admin''), s)) \<and>
   (\<forall>t d rt s. bearer (authorization r) = Some t \<and> t \<noteq> [] \<and> jwt_verify env t = Some d \<and>
       tk_role d \<noteq> Some ''moderator'' \<and> tk_role d \<noteq> Some ''admin'' \<and> rt \<in> {Moderator, ModeratorActive} \<longrightarrow>
       handle env rt r s =
         (reply 403 (failure ''Access denied. Required role: moderator or admin''), s))"
proof (intro conjI allI impI)
  assume "user r = None"
  then show "authorize roles r = Inl (reply 401 (failure ''User not authenticated.''))"
    by (rule authorize_None)
next
  fix ms h s assume "user r = None"
  then show "chain (authorize roles # ms) h r s =
         (reply 401 (failure ''User not authenticated.''), s)"
    by (simp add: authorize_None)
next
  fix d assume "user r = Some d \<and> \<not> js_includes roles (tk_role d)"
  then show "authorize roles r =
        Inl (reply 403 (failure (''Access denied. Required role: '' @ join '' or '' roles)))"
    by (simp add: authorize_reject)
next
  fix d ms h s assume "user r = Some d \<and> \<not> js_includes roles (tk_role d)"
  then show "chain (authorize roles # ms) h r s =
         (reply 403 (failure (''Access denied. Required role: '' @ join '' or '' roles)), s)"
    by (simp add: authorize_reject)
next
  fix t d rt s
  assume a: "bearer (authorization r) = Some t \<and> t \<noteq> [] \<and> jwt_verify env t = Some d \<and>
       tk_role d \<noteq> Some ''admin'' \<and> rt \<in> {AdminUsers, PutRole, PutStatus, DeleteUser}"
  then have "chain [authenticate env, authorize [''admin'']] h r s =
      (reply 403 (failure ''Access denied. Required role: admin''), s)" for h
    by (cases "tk_role d") (simp_all add: authenticate_ok [of r t env d] authorize_def js_includes_def)
  with a show "handle env rt r s = (reply 403 (failure ''Access denied. Required role: admin''), s)"
    by auto
next
  fix t d rt s
  assume a: "bearer (authorization r) = Some t \<and> t \<noteq> [] \<and> jwt_verify env t = Some d \<and>
       tk_role d \<noteq> Some ''moderator'' \<and> tk_role d \<noteq> Some ''admin'' \<and> rt \<in> {Moderator, ModeratorActive}"
  then have "chain [authenticate env, authorize [''moderator'', ''admin'']] h r s =
      (reply 403 (failure ''Access denied. Required role: moderator or admin''), s)" for h
    by (cases "tk_role d") (simp_all add: authenticate_ok [of r t env d] authorize_def js_includes_def)
  with a show "handle env rt r s =
         (reply 403 (failure ''Access denied. Required role: moderator or admin''), s)"
    by auto
qed

lemma demo_bearer_M: "bearer (Some ''Bearer tokM'') = Some ''tokM''"
  by (simp add: bearer_def)

theorem authorize_role_check_witness:
  "handle demo_env PutRole
     (demo_request (Some ''Bearer tokM'') ''u1'' (no_body\<lparr>b_role := Some (JStr ''admin'')\<rparr>)) demo_users =
   (reply 403 (failure ''Access denied. Required role: admin''), demo_users) \<and>
   authorize [''admin''] (demo_request None ''u1'' no_body) =
     Inl (reply 401 (failure ''User not authenticated.''))"
  using authorize_role_check [of "demo_request (Some ''Bearer tokM'') ''u1'' (no_body\<lparr>b_role := Some (JStr ''admin'')\<rparr>)"
      "[''admin'']" demo_env]
    authorize_role_check [of "demo_request None ''u1'' no_body" "[''admin'']" demo_env]
  by (simp add: demo_request_def demo_bearer_M demo_env_def demo_verify_def demo_moderator_def)

section \<open>The authentication middleware\<close>

text \<open>
  C3, as the specification words it, fails: with a tab between the scheme and a token that
  verifies, or with two spaces there, the second whitespace-delimited field of the header
  is the token, yet \<open>authenticate\<close> answers 401 "no token", because it cuts the header at
  every single space and takes the piece at index 1.
\<close>

theorem authenticate_whitespace_counterexample:
  "second_whitespace_field (''Bearer'' @ [CHR 0x09] @ ''tokA'') = Some ''tokA'' \<and>
   second_whitespace_field ''Bearer  tokA'' = Some ''tokA'' \<and>
   jwt_verify demo_env ''tokA'' = Some demo_admin \<and>
   authenticate demo_env (demo_request (Some (''Bearer'' @ [CHR 0x09] @ ''tokA'')) [] no_body) =
     Inl (reply 401 (failure ''Access denied. No token provided.'')) \<and>
   authenticate demo_env (demo_request (Some ''Bearer  tokA'') [] no_body) =
     Inl (reply 401 (failure ''Access denied. No token provided.''))"
  by (simp add: second_whitespace_field_def is_space_def demo_env_def demo_verify_def
      authenticate_def bearer_def demo_request_def)

text \<open>
  C3, amended. The token is the piece at index 1 of the header cut at every single space:
  nothing when there is no header or no space in it, and \<open>t\<close> for a header
  \<open>a t\<close> or \<open>a t w\<close> where \<open>a\<close> and \<open>t\<close> hold no space. When that piece is missing or
  empty \<open>authenticate\<close> answers 401 whatever the verifier is, so verification plays no part; when
  verification of the piece fails it answers 403; in both cases nothing downstream runs.
  It calls \<open>next()\<close> exactly when verification succeeds, with the decoded identity
  attached to the request.
\<close>

theorem authenticate_outcomes:
  "bearer None = None \<and>
   (\<forall>v. CHR 0x20 \<notin> set v \<longrightarrow> bearer (Some v) = None) \<and>
   (\<forall>a t w. CHR 0x20 \<notin> set a \<and> CHR 0x20 \<notin> set t \<longrightarrow>
      bearer (Some (a @ CHR 0x20 # t)) = Some t \<and>
      bearer (Some (a @ CHR 0x20 # t @ CHR 0x20 # w)) = Some t) \<and>
   (no_token (bearer (authorization r)) \<longrightarrow>
      (\<forall>e ms h s.
         authenticate e r = Inl (reply 401 (failure ''Access denied. No token provided.'')) \<and>
         chain (authenticate e # ms) h r s =
           (reply 401 (failure ''Access denied. No token provided.''), s))) \<and>
   (\<forall>t. bearer (authorization r) = Some t \<and> t \<noteq> [] \<and> jwt_verify env t = None \<longrightarrow>
      authenticate env r = Inl (reply 403 (failure ''Invalid or expired token.'')) \<and>
      (\<forall>ms h s. chain (authenticate env # ms) h r s =
         (reply 403 (failure ''Invalid or expired token.''), s))) \<and>
   (\<forall>r'. authenticate env r = Inr r' \<longleftrightarrow>
      (\<exists>t d. bearer (authorization r) = Some t \<and> t \<noteq> [] \<and> jwt_verify env t = Some d \<and>
             r' = r\<lparr>user := Some d\<rparr>)) \<and>
   (\<forall>t d ms h s. bearer (authorization r) = Some t \<and> t \<noteq> [] \<and> jwt_verify env t = Some d \<longrightarrow>
      chain (authenticate env # ms) h r s = chain ms h (r\<lparr>user := Some d\<rparr>) s)"
proof (intro conjI allI impI)
  show "bearer None = None" by (rule bearer_shape)
next
  fix v :: string assume "CHR 0x20 \<notin> set v"
  then show "bearer (Some v) = None" by (rule bearer_shape)
next
  fix a t w :: string assume "CHR 0x20 \<notin> set a \<and> CHR 0x20 \<notin> set t"
  then show "bearer (Some (a @ CHR 0x20 # t)) = Some t"
    by (simp add: bearer_shape)
next
  fix a t w :: string assume "CHR 0x20 \<notin> set a \<and> CHR 0x20 \<notin> set t"
  then show "bearer (Some (a @ CHR 0x20 # t @ CHR 0x20 # w)) = Some t"
    by (simp add: bearer_shape)
next
  fix e assume "no_token (bearer (authorization r))"
  then show "authenticate e r = Inl (reply 401 (failure ''Access denied. No token provided.''))"
    by (rule authenticate_no_token)
next
  fix e ms h s assume "no_token (bearer (authorization r))"
  then show "chain (authenticate e # ms) h r s =
           (reply 401 (failure ''Access denied. No token provided.''), s)"
    by (simp add: authenticate_no_token)
next
  fix t assume "bearer (authorization r) = Some t \<and> t \<noteq> [] \<and> jwt_verify env t = None"
  then show "authenticate env r = Inl (reply 403 (failure ''Invalid or expired token.''))"
    by (simp add: authenticate_bad_token)
next
  fix t ms h s assume "bearer (authorization r) = Some t \<and> t \<noteq> [] \<and> jwt_verify env t = None"
  then show "chain (authenticate env # ms) h r s =
         (reply 403 (failure ''Invalid or expired token.''), s)"
    by (simp add: authenticate_bad_token)
next
  fix r' show "authenticate env r = Inr r' \<longleftrightarrow>
      (\<exists>t d. bearer (authorization r) = Some t \<and> t \<noteq> [] \<and> jwt_verify env t = Some d \<and>
             r' = r\<lparr>user := Some d\<rparr>)"
    by (rule authenticate_Inr)
next
  fix t d ms h s
  assume "bearer (authorization r) = Some t \<and> t \<noteq> [] \<and> jwt_verify env t = Some d"
  then show "chain (authenticate env # ms) h r s = chain ms h (r\<lparr>user := Some d\<rparr>) s"
    by (simp add: authenticate_ok)
qed

theorem authenticate_outcomes_witness:
  "bearer (Some ''Bearer tokA'') = Some ''tokA'' \<and>
   authenticate demo_env (demo_request None [] no_body) =
     Inl (reply 401 (failure ''Access denied. No token provided.'')) \<and>
   authenticate demo_env (demo_request (Some ''Bearer'') [] no_body) =
     Inl (reply 401 (failure ''Access denied. No token provided.'')) \<and>
   authenticate demo_env (demo_request (Some ''Bearer stale'') [] no_body) =
     Inl (reply 403 (failure ''Invalid or expired token.'')) \<and>
   authenticate demo_env (demo_request (Some ''Bearer tokA'') [] no_body) =
     Inr ((demo_request (Some ''Bearer tokA'') [] no_body)\<lparr>user := Some demo_admin\<rparr>)"
proof -
  have b: "bearer (Some ''Bearer tokA'') = Some ''tokA''"
    using authenticate_outcomes [of "demo_request None [] no_body" demo_env, THEN conjunct2, THEN conjunct2,
        THEN conjunct1, rule_format, of "''Bearer''" "''tokA''"]
    by simp
  have s: "bearer (Some ''Bearer stale'') = Some ''stale''"
    by (simp add: bearer_def)
  have n: "bearer (Some ''Bearer'') = None"
    by (simp add: bearer_def)
  show ?thesis
    using b
      authenticate_outcomes [of "demo_request None [] no_body" demo_env]
      authenticate_outcomes [of "demo_request (Some ''Bearer'') [] no_body" demo_env]
      authenticate_outcomes [of "demo_request (Some ''Bearer stale'') [] no_body" demo_env]
      authenticate_outcomes [of "demo_request (Some ''Bearer tokA'') [] no_body" demo_env]
    by (simp add: s n demo_request_def no_token_def demo_env_def demo_verify_def)
qed

section \<open>The self-action guard\<close>

lemma put_role_self:
  "user r = Some d \<Longrightarrow> params_id r = userId d \<Longrightarrow>
   put_role env r s = (reply 400 (failure ''Cannot modify your own role''), s)"
  by (simp add: put_role_def)

lemma put_status_self:
  "user r = Some d \<Longrightarrow> params_id r = userId d \<Longrightarrow>
   put_status env r s = (reply 400 (failure ''Cannot deactivate yourself''), s)"
  by (simp add: put_status_def)

lemma delete_user_self:
  "user r = Some d \<Longrightarrow> params_id r = userId d \<Longrightarrow>
   delete_user env r s = (reply 400 (failure ''Cannot delete yourself''), s)"
  by (simp add: delete_user_def)

lemma admin_route:
  "bearer (authorization r) = Some t \<Longrightarrow> t \<noteq> [] \<Longrightarrow> jwt_verify env t = Some d \<Longrightarrow>
   tk_role d = Some ''admin'' \<Longrightarrow>
   chain [authenticate env, authorize [''admin'']] h r s = h (r\<lparr>user := Some d\<rparr>) s"
  by (simp add: authenticate_ok authorize_def js_includes_def)

text \<open>
  What the guard does do: when the path spells the id exactly as the token carries it,
  the three routes answer 400 and the collection comes back as it was.
\<close>

lemma guard_same_spelling:
  assumes "bearer (authorization r) = Some t" and "t \<noteq> []"
    and "jwt_verify env t = Some d" and "tk_role d = Some ''admin''"
    and "params_id r = userId d"
  shows "handle env PutRole r s = (reply 400 (failure ''Cannot modify your own role''), s) \<and>
         handle env PutStatus r s = (reply 400 (failure ''Cannot deactivate yourself''), s) \<and>
         handle env DeleteUser r s = (reply 400 (failure ''Cannot delete yourself''), s)"
proof -
  have c: "chain [authenticate env, authorize [''admin'']] h r s = h (r\<lparr>user := Some d\<rparr>) s" for h
    using assms(1-4) by (rule admin_route)
  have u: "user (r\<lparr>user := Some d\<rparr>) = Some d"
    and p: "params_id (r\<lparr>user := Some d\<rparr>) = userId d"
    using assms(5) by simp_all
  have rl: "handle env PutRole r s = (reply 400 (failure ''Cannot modify your own role''), s)"
    by (simp only: handle.simps c put_role_self [OF u p])
  have st: "handle env PutStatus r s = (reply 400 (failure ''Cannot deactivate yourself''), s)"
    by (simp only: handle.simps c put_status_self [OF u p])
  have del: "handle env DeleteUser r s = (reply 400 (failure ''Cannot delete yourself''), s)"
    by (simp only: handle.simps c delete_user_self [OF u p])
  from rl st del show ?thesis by blast
qed

lemma own_id_cast:
  "castObjectId driver_env ''64A1B2C3D4E5F6A7B8C9D0E1'' = Some ''64a1b2c3d4e5f6a7b8c9d0e1''"
  by code_simp

lemma own_id_route:
  "chain [authenticate driver_env, authorize [''admin'']] h (own_id_request b) s =
   h ((own_id_request b)\<lparr>user := Some root_admin\<rparr>) s"
proof (rule admin_route)
  show "bearer (authorization (own_id_request b)) = Some ''tokR''"
    by (simp add: own_id_request_def demo_request_def bearer_def)
  show "''tokR'' \<noteq> []" by simp
  show "jwt_verify driver_env ''tokR'' = Some root_admin"
    by (simp add: driver_env_def root_verify_def)
  show "tk_role root_admin = Some ''admin''"
    by (simp add: root_admin_def)
qed

lemma own_id_differs:
  "params_id ((own_id_request b)\<lparr>user := Some root_admin\<rparr>) \<noteq> userId root_admin"
  by (simp add: own_id_request_def demo_request_def root_admin_def)

text \<open>
  C1 fails on the code. The guard compares the text of the path with the text of the
  token's \<open>userId\<close>, while the repository call casts the path to an ObjectId. An admin
  whose id is 64a1b2c3d4e5f6a7b8c9d0e1 and who writes it in upper case in the path
  targets their own record, the cast of the path being their own id, and passes all three
  guards: the delete route answers 200 and the record is gone, the status route answers
  200 and the admin is deactivated, the role route answers 200 and the admin is a user.
\<close>

theorem self_action_bypass:
  "castObjectId driver_env (params_id (own_id_request no_body)) = Some (userId root_admin) \<and>
   doc_id root_doc = userId root_admin \<and>
   handle driver_env DeleteUser (own_id_request no_body) [root_doc, carol_doc] =
     (reply 200 [(''success'', JBool True), (''message'', JStr ''User deleted successfully'')],
      [carol_doc]) \<and>
   findById driver_env [carol_doc] (userId root_admin) = Inr None \<and>
   status (fst (handle driver_env PutStatus
      (own_id_request (no_body\<lparr>b_isActive := Some (JBool False)\<rparr>)) [root_doc, carol_doc])) = 200 \<and>
   snd (handle driver_env PutStatus
      (own_id_request (no_body\<lparr>b_isActive := Some (JBool False)\<rparr>)) [root_doc, carol_doc]) =
     [root_doc\<lparr>isActive := Some False\<rparr>, carol_doc] \<and>
   status (fst (handle driver_env PutRole
      (own_id_request (no_body\<lparr>b_role := Some (JStr ''user'')\<rparr>)) [root_doc, carol_doc])) = 200 \<and>
   snd (handle driver_env PutRole
      (own_id_request (no_body\<lparr>b_role := Some (JStr ''user'')\<rparr>)) [root_doc, carol_doc]) =
     [root_doc\<lparr>role := Some ''user''\<rparr>, carol_doc]"
proof -
  have p: "params_id (own_id_request b) = ''64A1B2C3D4E5F6A7B8C9D0E1''" for b
    by (simp add: own_id_request_def demo_request_def)
  have i: "userId root_admin = ''64a1b2c3d4e5f6a7b8c9d0e1''"
    by (simp add: root_admin_def)
  have c: "castObjectId driver_env (params_id (own_id_request no_body)) = Some (userId root_admin)"
    by (simp only: p i own_id_cast)
  have d: "doc_id root_doc = userId root_admin"
    by (simp add: root_doc_def root_admin_def)
  have f: "find (\<lambda>u. doc_id u = ''64a1b2c3d4e5f6a7b8c9d0e1'') [root_doc, carol_doc] = Some root_doc"
    by (simp add: root_doc_def)
  have del: "handle driver_env DeleteUser (own_id_request no_body) [root_doc, carol_doc] =
     (reply 200 [(''success'', JBool True), (''message'', JStr ''User deleted successfully'')],
      [carol_doc])"
    using own_id_differs [of no_body]
    by (simp only: handle.simps own_id_route)
      (simp add: delete_user_def findByIdAndDelete_def p own_id_cast f root_doc_def)
  have g: "findById driver_env [carol_doc] (userId root_admin) = Inr None"
    unfolding i by code_simp
  have st: "handle driver_env PutStatus
      (own_id_request (no_body\<lparr>b_isActive := Some (JBool False)\<rparr>)) [root_doc, carol_doc] =
     (reply 200 [(''success'', JBool True),
                 (''message'', JStr ''User deactivated successfully''),
                 (''user'', selected (Some (root_doc\<lparr>isActive := Some False\<rparr>)))],
      [root_doc\<lparr>isActive := Some False\<rparr>, carol_doc])"
    using own_id_differs [of "no_body\<lparr>b_isActive := Some (JBool False)\<rparr>"]
    by (simp only: handle.simps own_id_route)
      (simp add: put_status_def findByIdAndUpdate_def castBoolean_def p own_id_cast f
        root_doc_def own_id_request_def demo_request_def)
  have rl: "handle driver_env PutRole
      (own_id_request (no_body\<lparr>b_role := Some (JStr ''user'')\<rparr>)) [root_doc, carol_doc] =
     (reply 200 [(''success'', JBool True),
                 (''message'', JStr ''User role updated to user''),
                 (''user'', selected (Some (root_doc\<lparr>role := Some ''user''\<rparr>)))],
      [root_doc\<lparr>role := Some ''user''\<rparr>, carol_doc])"
    using own_id_differs [of "no_body\<lparr>b_role := Some (JStr ''user'')\<rparr>"]
    by (simp only: handle.simps own_id_route)
      (simp add: put_role_def findByIdAndUpdate_def p own_id_cast f
        root_doc_def own_id_request_def demo_request_def)
  from c d del g st rl show ?thesis by (simp add: reply_def)
qed

section \<open>Signup\<close>



lemma save_new_valid:
  assumes "d_username d = Inr (Some un)" and "un \<noteq> []"
    and "d_email d = Inr (Some em)" and "match_email False em"
    and "d_password d = Inr (Some pw)" and "6 \<le> length pw"
    and "d_role d = Inr rl" and "enum_valid env (Inr rl)"
    and "\<forall>v \<in> set s. username v \<noteq> un \<and> email v \<noteq> em"
  shows "save_new env d s =
     (let u = \<lparr>doc_id = newObjectId env, username = un, email = em,
               password = bcrypt_hash env pw, role = rl,
               isActive = Some True, createdAt = now env\<rparr>
      in Inr (u, s @ [u]))"
proof -
  from assms(4) have "em \<noteq> []" by (cases em) auto
  moreover from assms(6) have "pw \<noteq> []" by auto
  ultimately have "validate env d = []" using assms(1-8)
    by (simp add: validate_def required_def match_valid_def minlength_def)
  with assms(1,3,5,7,9) show ?thesis
    by (simp add: save_new_def)
qed


text \<open>The role the handler hands to \<open>new User\<close>.\<close>

lemma signup_result:
  "signup env r s =
     (case save_new env
             (new_User env (b_username (body r)) (b_email (body r)) (b_password (body r))
                (case b_role (body r) of None \<Rightarrow> JStr ''user''
                 | Some v \<Rightarrow> if v = JStr ''admin'' then JStr ''user'' else v)) s of
        Inl e \<Rightarrow> (reply 400 (failure (message env e)), s)
      | Inr (u, s') \<Rightarrow>
          (reply 201
             [(''success'', JBool True),
              (''message'', JStr ''User registered successfully''),
              (''user'', public_user u),
              (''token'', JStr (jwt_sign env (identity_of u)))], s'))"
proof (cases "b_role (body r)")
  case None
  then show ?thesis by (simp add: signup_def Let_def)
next
  case (Some v)
  then show ?thesis by (simp add: signup_def Let_def)
qed



text \<open>
  C4. A signup that asks for role admin and is otherwise valid (a username that is not
  blank, an email of the required shape, a password of six characters or more, neither
  username nor email taken) is answered 201 like any other: the document is stored with
  role user, and the answer and the token carry role user, with no notice of the change.
\<close>

theorem signup_admin_downgraded:
  assumes "b_role (body r) = Some (JStr ''admin'')"
    and "b_username (body r) = Some (JStr un)" and "trim un \<noteq> []"
    and "b_email (body r) = Some (JStr em)" and "match_email False (lowercase em)"
    and "b_password (body r) = Some (JStr pw)" and "6 \<le> length pw"
    and "\<forall>v \<in> set s. username v \<noteq> trim un \<and> email v \<noteq> lowercase em"
  shows "\<exists>u. handle env Signup r s =
           (reply 201
              [(''success'', JBool True),
               (''message'', JStr ''User registered successfully''),
               (''user'', JObj [(''id'', JStr (doc_id u)), (''username'', JStr (trim un)),
                                (''email'', JStr (lowercase em)), (''role'', JStr ''user'')]),
               (''token'', JStr (jwt_sign env
                  \<lparr>userId = doc_id u, tk_username = trim un, tk_email = lowercase em,
                   tk_role = Some ''user''\<rparr>))],
            s @ [u]) \<and>
         role u = Some ''user'' \<and> role u \<noteq> Some ''admin'' \<and>
         username u = trim un \<and> email u = lowercase em \<and>
         password u = bcrypt_hash env pw \<and> isActive u = Some True"
proof -
  let ?d = "new_User env (b_username (body r)) (b_email (body r)) (b_password (body r))
              (JStr ''user'')"
  let ?u = "\<lparr>doc_id = newObjectId env, username = trim un, email = lowercase em,
             password = bcrypt_hash env pw, role = Some ''user'',
             isActive = Some True, createdAt = now env\<rparr>"
  have "save_new env ?d s = Inr (?u, s @ [?u])"
    using save_new_valid [of ?d "trim un" "lowercase em" pw "Some ''user''" env s] assms
    by (simp add: new_User_def set_path_def castString_def enum_valid_def role_enum_def Let_def)
  then have "handle env Signup r s =
      (reply 201
         [(''success'', JBool True),
          (''message'', JStr ''User registered successfully''),
          (''user'', public_user ?u),
          (''token'', JStr (jwt_sign env (identity_of ?u)))], s @ [?u])"
    using assms(1) by (simp add: signup_result)
  then show ?thesis
    by (intro exI [of _ ?u]) (simp add: public_user_def identity_of_def jstr_def)
qed

theorem signup_admin_downgraded_witness:
  "status (fst (handle demo_env Signup alice_admin demo_users)) = 201 \<and>
   map role (snd (handle demo_env Signup alice_admin demo_users)) =
     [Some ''admin'', Some ''moderator'', Some ''user'', Some ''user'']"
proof -
  have h: "b_role (body alice_admin) = Some (JStr ''admin'')"
    "b_username (body alice_admin) = Some (JStr ''alice'')" "trim ''alice'' \<noteq> []"
    "b_email (body alice_admin) = Some (JStr ''a@x.com'')"
    "match_email False (lowercase ''a@x.com'')"
    "b_password (body alice_admin) = Some (JStr ''secret1'')" "6 \<le> length ''secret1''"
    "\<forall>v \<in> set demo_users. username v \<noteq> trim ''alice'' \<and> email v \<noteq> lowercase ''a@x.com''"
    by (simp_all add: alice_admin_def signup_request_def demo_request_def no_body_def trim_def
        js_space_def lowercase_def lower_char_def line_end_def demo_users_def)
  from signup_admin_downgraded [OF h, of demo_env]
  obtain u where "handle demo_env Signup alice_admin demo_users =
           (reply 201
              [(''success'', JBool True),
               (''message'', JStr ''User registered successfully''),
               (''user'', JObj [(''id'', JStr (doc_id u)), (''username'', JStr (trim ''alice'')),
                                (''email'', JStr (lowercase ''a@x.com'')), (''role'', JStr ''user'')]),
               (''token'', JStr (jwt_sign demo_env
                  \<lparr>userId = doc_id u, tk_username = trim ''alice'', tk_email = lowercase ''a@x.com'',
                   tk_role = Some ''user''\<rparr>))],
            demo_users @ [u])" and "role u = Some ''user''"
    by blast
  then show ?thesis
    by (simp add: reply_def demo_users_def)
qed

section \<open>Login\<close>

lemma findOne_email_None:
  "findOne_email env s (Some (JStr e)) = Inr None \<longleftrightarrow> (\<forall>v \<in> set s. email v \<noteq> lowercase e)"
  by (auto simp: findOne_email_def find_None_iff)

lemma findOne_email_Some:
  "findOne_email env s (Some (JStr e)) = Inr (Some u) \<Longrightarrow> u \<in> set s \<and> email u = lowercase e"
  by (auto simp: findOne_email_def find_Some_iff)

lemma findOne_email_compare:
  "findOne_email (env\<lparr>bcrypt_compare := c\<rparr>) s e = findOne_email env s e"
  by (simp add: findOne_email_def split: option.splits json.splits)

lemma login_not_found:
  "findOne_email env s (b_email (body r)) = Inr None \<Longrightarrow>
   login env r s = (reply 401 (failure ''Invalid credentials''), s)"
  by (simp add: login_def)

lemma login_inactive:
  "findOne_email env s (b_email (body r)) = Inr (Some u) \<Longrightarrow> isActive u \<noteq> Some True \<Longrightarrow>
   login env r s = (reply 403 (failure ''Account is deactivated''), s)"
  by (simp add: login_def)





text \<open>
  C10. A login whose email finds a document with \<open>isActive\<close> false is answered 403
  "Account is deactivated" and changes nothing, whatever password the body carries (none,
  a wrong one or the right one) and whatever bcrypt would say: the check comes before the
  comparison. The answer differs from the one a login gets whose email finds no document.
\<close>

theorem login_deactivated:
  assumes "findOne_email env s (b_email (body r)) = Inr (Some u)" and "isActive u \<noteq> Some True"
  shows "handle env Login r s = (reply 403 (failure ''Account is deactivated''), s) \<and>
         (\<forall>p c. handle (env\<lparr>bcrypt_compare := c\<rparr>) Login
                   (r\<lparr>body := (body r)\<lparr>b_password := p\<rparr>\<rparr>) s =
                 (reply 403 (failure ''Account is deactivated''), s)) \<and>
         (\<forall>r' :: request. findOne_email env s (b_email (body r')) = Inr None \<longrightarrow>
                fst (handle env Login r' s) \<noteq> fst (handle env Login r s))"
proof (intro conjI allI impI)
  show l: "handle env Login r s = (reply 403 (failure ''Account is deactivated''), s)"
    using login_inactive [OF assms] by simp
  fix p c
  have "findOne_email (env\<lparr>bcrypt_compare := c\<rparr>) s
          (b_email (body (r\<lparr>body := (body r)\<lparr>b_password := p\<rparr>\<rparr>))) = Inr (Some u)"
    using assms(1) by (simp add: findOne_email_compare)
  from login_inactive [OF this assms(2)]
  show "handle (env\<lparr>bcrypt_compare := c\<rparr>) Login (r\<lparr>body := (body r)\<lparr>b_password := p\<rparr>\<rparr>) s =
        (reply 403 (failure ''Account is deactivated''), s)"
    by simp
next
  fix r' :: request assume "findOne_email env s (b_email (body r')) = Inr None"
  from login_not_found [OF this] login_inactive [OF assms]
  show "fst (handle env Login r' s) \<noteq> fst (handle env Login r s)"
    by (simp add: reply_def)
qed

theorem login_deactivated_witness:
  "handle demo_env Login (login_request ''carol@x.com'' (Some (JStr ''carolpw''))) demo_users =
     (reply 403 (failure ''Account is deactivated''), demo_users) \<and>
   handle demo_env Login (login_request ''carol@x.com'' (Some (JStr ''guess''))) demo_users =
     (reply 403 (failure ''Account is deactivated''), demo_users) \<and>
   bcrypt_compare demo_env ''carolpw'' (password (demo_users ! 2))"
proof -
  have f: "findOne_email demo_env demo_users (b_email (body (login_request ''carol@x.com'' p))) =
       Inr (Some (demo_users ! 2))" for p
    by (simp add: login_request_def demo_request_def findOne_email_def demo_users_def
        lowercase_def lower_char_def)
  have i: "isActive (demo_users ! 2) \<noteq> Some True"
    by (simp add: demo_users_def)
  have c: "bcrypt_compare demo_env ''carolpw'' (password (demo_users ! 2))"
    by (simp add: demo_env_def demo_compare_def demo_users_def)
  from login_deactivated [OF f [of "Some (JStr ''carolpw'')"] i]
    login_deactivated [OF f [of "Some (JStr ''guess'')"] i] c
  show ?thesis by blast
qed

section \<open>What each route does to the roles\<close>

















































section \<open>The closed set of roles\<close>



lemma authenticate_Inl:
  "authenticate env r = Inl resp \<Longrightarrow>
   resp = reply 401 (failure ''Access denied. No token provided.'') \<or>
   resp = reply 403 (failure ''Invalid or expired token.'')"
  by (auto simp: authenticate_def split: option.splits if_splits)

lemma authorize_Inl:
  "authorize roles r = Inl resp \<Longrightarrow>
   resp = reply 401 (failure ''User not authenticated.'') \<or>
   resp = reply 403 (failure (''Access denied. Required role: '' @ join '' or '' roles))"
  by (auto simp: authorize_def split: option.splits if_splits)





lemma demo_bearer_A: "bearer (Some ''Bearer tokA'') = Some ''tokA''"
  using bearer_shape(3) [of "''Bearer''" "''tokA''"] by simp


section \<open>User views\<close>

lemma toJSON_password: "has_key ''password'' (JObj (toJSON u))"
  by (simp add: toJSON_def)

lemma jstr_keys: "\<not> has_key k (jstr v)"
  by (cases v) (simp_all add: jstr_def)

lemma jbool_keys: "\<not> has_key k (jbool v)"
  by (cases v) (simp_all add: jbool_def)

lemma selected_keys: "\<not> has_key ''password'' (selected d)"
  by (cases d) (simp_all add: selected_def select_minus_def toJSON_def jstr_keys jbool_keys)

lemma public_user_keys: "\<not> has_key ''password'' (public_user u)"
  by (simp add: public_user_def jstr_keys)

lemma decoded_json_keys: "\<not> has_key ''password'' (decoded_json d)"
  by (simp add: decoded_json_def jstr_keys)

lemma failure_keys: "\<not> has_key ''password'' (json (reply st (failure m)))"
  by (simp add: reply_def failure_def)

lemma chain_fst:
  assumes "\<And>r'. Q (fst (h r' s))"
    and "\<And>m r' resp. m \<in> set ms \<Longrightarrow> m r' = Inl resp \<Longrightarrow> Q resp"
  shows "Q (fst (chain ms h r s))"
  using assms(2)
proof (induction ms arbitrary: r)
  case Nil
  show ?case by (simp add: assms(1))
next
  case (Cons m ms)
  show ?case
  proof (cases "m r")
    case (Inl resp)
    with Cons.prems [of m r resp] show ?thesis by simp
  next
    case (Inr r')
    have "Q (fst (chain ms h r' s))"
    proof (rule Cons.IH)
      fix m' r'' resp assume "m' \<in> set ms" and "m' r'' = Inl resp"
      then show "Q resp" using Cons.prems [of m' r'' resp] by simp
    qed
    with Inr show ?thesis by simp
  qed
qed

lemma authenticate_keys:
  "authenticate env r = Inl resp \<Longrightarrow> \<not> has_key ''password'' (json resp)"
  using authenticate_Inl [of env r resp] failure_keys by auto

lemma authorize_keys:
  "authorize roles r = Inl resp \<Longrightarrow> \<not> has_key ''password'' (json resp)"
  using authorize_Inl [of roles r resp] failure_keys by auto

lemma adminOnly_keys:
  "adminOnly r = Inl resp \<Longrightarrow> \<not> has_key ''password'' (json resp)"
  by (auto simp: adminOnly_def reply_def failure_def split: option.splits if_splits)

lemma home_keys: "\<not> has_key ''password'' (json (fst (home r s)))"
  by (simp add: home_def reply_def)

lemma signup_keys: "\<not> has_key ''password'' (json (fst (signup env r s)))"
  by (simp add: signup_result reply_def failure_def public_user_keys
      split: sum.splits prod.splits)

lemma login_keys: "\<not> has_key ''password'' (json (fst (login env r s)))"
  by (simp add: login_def reply_def failure_def public_user_keys
      split: option.splits sum.splits)

lemma get_profile_keys: "\<not> has_key ''password'' (json (fst (get_profile env r s)))"
  by (simp add: get_profile_def reply_def failure_def selected_keys
      split: option.splits sum.splits)

lemma put_profile_keys: "\<not> has_key ''password'' (json (fst (put_profile env r s)))"
  by (simp add: put_profile_def reply_def failure_def selected_keys
      split: option.splits sum.splits prod.splits)

lemma change_password_keys: "\<not> has_key ''password'' (json (fst (change_password env r s)))"
  by (simp add: change_password_def reply_def failure_def
      split: option.splits sum.splits)

lemma admin_dashboard_keys: "\<not> has_key ''password'' (json (fst (admin_dashboard r s)))"
  by (cases "user r") (simp_all add: admin_dashboard_def reply_def decoded_json_keys)

lemma admin_users_keys: "\<not> has_key ''password'' (json (fst (admin_users r s)))"
  by (simp add: admin_users_def reply_def selected_keys)

lemma put_role_keys: "\<not> has_key ''password'' (json (fst (put_role env r s)))"
  by (simp add: put_role_def reply_def failure_def selected_keys
      split: option.splits sum.splits prod.splits json.splits)

lemma put_status_keys: "\<not> has_key ''password'' (json (fst (put_status env r s)))"
  by (simp add: put_status_def reply_def failure_def selected_keys
      split: option.splits sum.splits prod.splits)

lemma delete_user_keys: "\<not> has_key ''password'' (json (fst (delete_user env r s)))"
  by (simp add: delete_user_def reply_def failure_def
      split: option.splits sum.splits prod.splits)

lemma moderator_dashboard_keys: "\<not> has_key ''password'' (json (fst (moderator_dashboard r s)))"
  by (cases "user r") (simp_all add: moderator_dashboard_def reply_def decoded_json_keys)

lemma moderator_active_keys: "\<not> has_key ''password'' (json (fst (moderator_active r s)))"
  by (simp add: moderator_active_def reply_def selected_keys)

lemma chain_keys:
  assumes "\<And>r'. \<not> has_key ''password'' (json (fst (h r' s)))"
    and "set ms \<subseteq> {authenticate env, authorize roles, adminOnly}"
  shows "\<not> has_key ''password'' (json (fst (chain ms h r s)))"
proof (rule chain_fst [where Q = "\<lambda>resp. \<not> has_key ''password'' (json resp)"])
  fix r' show "\<not> has_key ''password'' (json (fst (h r' s)))" by (rule assms(1))
next
  fix m r' resp assume "m \<in> set ms" and "m r' = Inl resp"
  with assms(2) show "\<not> has_key ''password'' (json resp)"
    using authenticate_keys authorize_keys adminOnly_keys by blast
qed


text \<open>
  C8. No answer of any route holds a field named \<open>password\<close> at any depth, so no user view
  in an answer does: signup and login write the view out with four fields, every other
  view is a document read through \<open>select('-password')\<close>, and \<open>req.user\<close> comes from the
  token. The stored document itself does have the field.
\<close>

theorem views_hide_password:
  "\<not> has_key ''password'' (json (fst (handle env rt r s))) \<and>
   (\<forall>u \<in> set s. has_key ''password'' (JObj (toJSON u)) \<and>
                 \<not> has_key ''password'' (selected (Some u)) \<and>
                 \<not> has_key ''password'' (public_user u))"
proof
  have c: "\<not> has_key ''password'' (json (fst (chain ms h r s)))"
    if "\<And>r'. \<not> has_key ''password'' (json (fst (h r' s)))"
      and "set ms \<subseteq> {authenticate env, authorize roles, adminOnly}" for ms h roles
    using that by (rule chain_keys)
  show "\<not> has_key ''password'' (json (fst (handle env rt r s)))"
  proof (cases rt)
    case Home
    then show ?thesis by (simp add: home_keys)
  next
    case Signup
    then show ?thesis by (simp add: signup_keys)
  next
    case Login
    then show ?thesis by (simp add: login_keys)
  next
    case GetProfile
    then show ?thesis
      by (simp del: chain.simps) (rule c [where roles = "[]"], simp_all add: get_profile_keys)
  next
    case PutProfile
    then show ?thesis
      by (simp del: chain.simps) (rule c [where roles = "[]"], simp_all add: put_profile_keys)
  next
    case ChangePassword
    then show ?thesis
      by (simp del: chain.simps) (rule c [where roles = "[]"], simp_all add: change_password_keys)
  next
    case Admin
    then show ?thesis
      by (simp del: chain.simps) (rule c [where roles = "[]"], simp_all add: admin_dashboard_keys)
  next
    case AdminUsers
    then show ?thesis
      by (simp del: chain.simps)
        (rule c [where roles = "[''admin'']"], simp_all add: admin_users_keys)
  next
    case PutRole
    then show ?thesis
      by (simp del: chain.simps)
        (rule c [where roles = "[''admin'']"], simp_all add: put_role_keys)
  next
    case PutStatus
    then show ?thesis
      by (simp del: chain.simps)
        (rule c [where roles = "[''admin'']"], simp_all add: put_status_keys)
  next
    case DeleteUser
    then show ?thesis
      by (simp del: chain.simps)
        (rule c [where roles = "[''admin'']"], simp_all add: delete_user_keys)
  next
    case Moderator
    then show ?thesis
      by (simp del: chain.simps)
        (rule c [where roles = "[''moderator'', ''admin'']"],
          simp_all add: moderator_dashboard_keys)
  next
    case ModeratorActive
    then show ?thesis
      by (simp del: chain.simps)
        (rule c [where roles = "[''moderator'', ''admin'']"],
          simp_all add: moderator_active_keys)
  qed
  show "\<forall>u \<in> set s. has_key ''password'' (JObj (toJSON u)) \<and>
                 \<not> has_key ''password'' (selected (Some u)) \<and>
                 \<not> has_key ''password'' (public_user u)"
    using toJSON_password selected_keys public_user_keys by blast
qed

theorem views_hide_password_witness:
  "\<not> has_key ''password''
       (json (fst (handle demo_env AdminUsers (demo_request (Some ''Bearer tokA'') [] no_body)
                     demo_users))) \<and>
   has_key ''username''
       (json (fst (handle demo_env AdminUsers (demo_request (Some ''Bearer tokA'') [] no_body)
                     demo_users))) \<and>
   has_key ''password'' (JObj (toJSON (hd demo_users)))"
proof -
  have a: "handle demo_env AdminUsers (demo_request (Some ''Bearer tokA'') [] no_body) demo_users =
      admin_users ((demo_request (Some ''Bearer tokA'') [] no_body)\<lparr>user := Some demo_admin\<rparr>)
        demo_users"
    using admin_route [of "demo_request (Some ''Bearer tokA'') [] no_body" "''tokA''" demo_env
        demo_admin admin_users demo_users]
    by (simp add: demo_request_def demo_bearer_A demo_env_def demo_verify_def demo_admin_def)
  have u: "has_key ''username''
       (json (fst (handle demo_env AdminUsers (demo_request (Some ''Bearer tokA'') [] no_body)
                     demo_users)))"
    unfolding a
    by (simp add: admin_users_def reply_def demo_users_def selected_def select_minus_def
        toJSON_def)
  have m: "hd demo_users \<in> set demo_users"
    by (simp add: demo_users_def)
  from views_hide_password [of demo_env AdminUsers
      "demo_request (Some ''Bearer tokA'') [] no_body" demo_users] u m
  show ?thesis by blast
qed

section \<open>Token round trip\<close>

text \<open>
  C9. A token issued for an identity snapshot at time \<open>t\<close> verifies to that same snapshot
  at every time before \<open>t\<close> plus 24 hours (86400 seconds), and is rejected as expired at
  every time from then on.
\<close>

theorem token_round_trip:
  "(t' < t + 86400 \<longrightarrow> verify mac secret t' (issue mac secret t i) = Verified i) \<and>
   (t + 86400 \<le> t' \<longrightarrow> verify mac secret t' (issue mac secret t i) = Expired)"
  by (simp add: verify_def issue_def expiresIn_def)

theorem token_round_trip_witness:
  "verify demo_mac JWT_SECRET 87399 (issue demo_mac JWT_SECRET 1000 (identity_of (hd demo_users))) =
     Verified \<lparr>userId = ''a1'', tk_username = ''root'', tk_email = ''root@x.com'',
               tk_role = Some ''admin''\<rparr> \<and>
   verify demo_mac JWT_SECRET 87400 (issue demo_mac JWT_SECRET 1000 (identity_of (hd demo_users))) =
     Expired"
proof -
  have i: "identity_of (hd demo_users) =
      \<lparr>userId = ''a1'', tk_username = ''root'', tk_email = ''root@x.com'', tk_role = Some ''admin''\<rparr>"
    by (simp add: identity_of_def demo_users_def)
  have "(87399::nat) < 1000 + 86400" and "(1000::nat) + 86400 \<le> 87400"
    by simp_all
  with token_round_trip [of 87399 1000 demo_mac JWT_SECRET "identity_of (hd demo_users)"]
    token_round_trip [of 87400 1000 demo_mac JWT_SECRET "identity_of (hd demo_users)"] i
  show ?thesis by simp
qed
end
